theory Spec2Isabelle
  imports Main "HOL-Library.Multiset"
begin

section \<open>Data model (worker/src/types)\<close>

text \<open>
  The interfaces \<^verbatim>\<open>Message\<close>, \<^verbatim>\<open>Conversation\<close>, \<^verbatim>\<open>UserPreferences\<close> and
  \<^verbatim>\<open>UserStorage\<close>. Timestamps are the integers \<^verbatim>\<open>Date.now()\<close> returns. The field
  \<^verbatim>\<open>id\<close> of a conversation is called \<open>id_conv\<close>, since \<open>id\<close> is the identity
  function of HOL.
\<close>

datatype role = User | Assistant

record message =
  role :: role
  content :: string
  timestamp :: int

record conversation =
  id_conv :: string
  title :: string
  model :: string
  messages :: "message list"
  createdAt :: int
  updatedAt :: int

datatype theme = Light | Dark

record user_preferences =
  defaultModel :: string
  theme :: theme

record user_storage =
  chats :: "conversation list"
  preferences :: user_preferences

text \<open>\<^verbatim>\<open>Partial<UserPreferences>\<close>: each key may be missing.\<close>

record partial_preferences =
  defaultModel_opt :: "string option"
  theme_opt :: "theme option"

section \<open>The Durable Object \<^verbatim>\<open>UserChatStorage\<close>\<close>

text \<open>
  The object has two pieces of state: the private field \<^verbatim>\<open>this.storage\<close>
  (\<^verbatim>\<open>UserStorage | null\<close>, the in-memory copy) and the value kept under the key
  \<^verbatim>\<open>'data'\<close> of \<^verbatim>\<open>this.state.storage\<close> (absent until the first successful put).
\<close>

record do_state =
  storage :: "user_storage option"
  durable :: "user_storage option"

text \<open>
  What one call of \<^verbatim>\<open>fetch\<close> reads from outside the object: the value of
  \<^verbatim>\<open>crypto.randomUUID()\<close>, the values of the first and the second call of
  \<^verbatim>\<open>Date.now()\<close>, and whether \<^verbatim>\<open>this.state.storage.put\<close> succeeds (when it
  does not, the awaited promise rejects and the \<^verbatim>\<open>catch\<close> of \<^verbatim>\<open>fetch\<close> runs).
  Reading the key \<^verbatim>\<open>'data'\<close> is taken to succeed.
\<close>

record env =
  randomUUID :: string
  date_now1 :: int
  date_now2 :: int
  put_ok :: bool

text \<open>
  A request, by the branch of \<^verbatim>\<open>fetch\<close> that its method and path select, in the
  order of the source. The string of \<open>GET_chat\<close> and \<open>DELETE_chat\<close> is
  \<^verbatim>\<open>url.pathname.split('/')[2]\<close>; \<open>POST_chats\<close> carries the parsed body
  \<^verbatim>\<open>{conversationId?, message, model}\<close>, \<open>PUT_preferences\<close> the parsed partial
  preferences. \<open>OTHER_preferences\<close> is the path \<^verbatim>\<open>/preferences\<close> with a method that is
  neither GET nor PUT, \<open>OTHER\<close> any request that no branch accepts.
\<close>

datatype request =
    GET_chats
  | GET_chat string
  | POST_chats "string option" message string
  | DELETE_chat string
  | DELETE_clear
  | GET_preferences
  | PUT_preferences partial_preferences
  | OTHER_preferences
  | OTHER

text \<open>The JSON responses: the four payloads with status 200, the two 404s and the 500.\<close>

datatype response =
    Conversations "conversation list"
  | Chat conversation
  | Success
  | Preferences user_preferences
  | Chat_not_found
  | Not_found
  | Internal_error

definition MAX_CHATS :: nat where
  "MAX_CHATS = 3"

definition default_preferences :: user_preferences where
  "default_preferences = \<lparr>defaultModel = ''gpt-4o'', theme = Dark\<rparr>"

definition default_storage :: user_storage where
  "default_storage = \<lparr>chats = [], preferences = default_preferences\<rparr>"

text \<open>
  \<^verbatim>\<open>getStorage\<close>: the in-memory copy when there is one, otherwise the durable value
  or, when the key is absent, the defaults; the result is kept in \<^verbatim>\<open>this.storage\<close>.
\<close>

definition getStorage :: "do_state \<Rightarrow> user_storage \<times> do_state" where
  "getStorage s =
     (case storage s of
        Some st \<Rightarrow> (st, s)
      | None \<Rightarrow>
          (let st = (case durable s of Some d \<Rightarrow> d | None \<Rightarrow> default_storage)
           in (st, s\<lparr>storage := Some st\<rparr>)))"

text \<open>
  \<^verbatim>\<open>saveStorage\<close> writes \<^verbatim>\<open>this.storage\<close> under the key; \<open>None\<close> is the rejected
  promise.
\<close>

definition saveStorage :: "env \<Rightarrow> do_state \<Rightarrow> do_state option" where
  "saveStorage e s = (if put_ok e then Some (s\<lparr>durable := storage s\<rparr>) else None)"

text \<open>
  The tail of every mutating branch: \<^verbatim>\<open>await this.saveStorage(); return Response.json(r)\<close>
  inside the \<^verbatim>\<open>try\<close>. The state \<open>s\<close> is the object after the branch has changed
  \<^verbatim>\<open>this.storage\<close> in place; when the put throws, the \<^verbatim>\<open>catch\<close> answers 500 and
  nothing restores \<^verbatim>\<open>this.storage\<close>.
\<close>

definition save_and_respond :: "env \<Rightarrow> response \<Rightarrow> do_state \<Rightarrow> response \<times> do_state" where
  "save_and_respond e r s =
     (case saveStorage e s of
        Some s' \<Rightarrow> (r, s')
      | None \<Rightarrow> (Internal_error, s))"

text \<open>
  \<^verbatim>\<open>chat = storage.chats.find(..)\<close> is a reference to the first matching element of
  the array, so the writes to \<^verbatim>\<open>chat\<close> change that element.
\<close>

fun update_first :: "('a \<Rightarrow> bool) \<Rightarrow> ('a \<Rightarrow> 'a) \<Rightarrow> 'a list \<Rightarrow> 'a list" where
  "update_first P f [] = []"
| "update_first P f (x # xs) = (if P x then f x # xs else x # update_first P f xs)"

text \<open>\<^verbatim>\<open>Array.prototype.findIndex\<close>, with \<open>None\<close> for \<^verbatim>\<open>-1\<close>.\<close>

fun findIndex :: "('a \<Rightarrow> bool) \<Rightarrow> 'a list \<Rightarrow> nat option" where
  "findIndex P [] = None"
| "findIndex P (x # xs) = (if P x then Some 0 else map_option Suc (findIndex P xs))"

text \<open>\<^verbatim>\<open>xs.splice(index, 1)\<close>.\<close>

definition splice1 :: "nat \<Rightarrow> 'a list \<Rightarrow> 'a list" where
  "splice1 index xs = take index xs @ drop (Suc index) xs"

text \<open>
  The existing-conversation branch of \<^verbatim>\<open>POST /chats\<close>:
  \<^verbatim>\<open>chat.messages.push(body.message); chat.updatedAt = Date.now()\<close>.
\<close>

definition push_message :: "env \<Rightarrow> message \<Rightarrow> conversation \<Rightarrow> conversation" where
  "push_message e m chat = chat\<lparr>messages := messages chat @ [m], updatedAt := date_now1 e\<rparr>"

text \<open>The object literal of the new-conversation branch.\<close>

definition new_chat :: "env \<Rightarrow> message \<Rightarrow> string \<Rightarrow> conversation" where
  "new_chat e m mdl =
     \<lparr>id_conv = randomUUID e,
      title = take 50 (content m) @ ''...'',
      model = mdl,
      messages = [m],
      createdAt = date_now1 e,
      updatedAt = date_now2 e\<rparr>"

text \<open>
  \<^verbatim>\<open>if (storage.chats.length >= MAX_CHATS) { sort by updatedAt; shift() }\<close>. The
  comparator \<^verbatim>\<open>a.updatedAt - b.updatedAt\<close> orders by the timestamp and the sort of the
  engine is stable, as \<open>sort_key\<close> is; the sort is in place, so the order of the
  array changes with it. \<^verbatim>\<open>shift()\<close> removes the first element.
\<close>

definition evict_oldest :: "conversation list \<Rightarrow> conversation list" where
  "evict_oldest cs =
     (if length cs \<ge> MAX_CHATS then tl (sort_key updatedAt cs) else cs)"

text \<open>\<^verbatim>\<open>{ ...storage.preferences, ...prefs }\<close>.\<close>

definition merge_preferences :: "user_preferences \<Rightarrow> partial_preferences \<Rightarrow> user_preferences" where
  "merge_preferences p q =
     \<lparr>defaultModel = (case defaultModel_opt q of Some d \<Rightarrow> d | None \<Rightarrow> defaultModel p),
      theme = (case theme_opt q of Some t \<Rightarrow> t | None \<Rightarrow> theme p)\<rparr>"

definition post_existing ::
  "env \<Rightarrow> string \<Rightarrow> message \<Rightarrow> user_storage \<Rightarrow> do_state \<Rightarrow> response \<times> do_state" where
  "post_existing e cid m st s =
     (case find (\<lambda>c. id_conv c = cid) (chats st) of
        None \<Rightarrow> (Chat_not_found, s)
      | Some chat \<Rightarrow>
          save_and_respond e (Chat (push_message e m chat))
            (s\<lparr>storage := Some (st\<lparr>chats :=
                 update_first (\<lambda>c. id_conv c = cid) (push_message e m) (chats st)\<rparr>)\<rparr>))"

definition post_new ::
  "env \<Rightarrow> message \<Rightarrow> string \<Rightarrow> user_storage \<Rightarrow> do_state \<Rightarrow> response \<times> do_state" where
  "post_new e m mdl st s =
     save_and_respond e (Chat (new_chat e m mdl))
       (s\<lparr>storage := Some (st\<lparr>chats := evict_oldest (chats st) @ [new_chat e m mdl]\<rparr>)\<rparr>)"

text \<open>
  \<^verbatim>\<open>fetch\<close>, branch by branch. In \<^verbatim>\<open>POST /chats\<close> the test
  \<^verbatim>\<open>if (body.conversationId)\<close> is one of truthiness: the existing-conversation
  branch is taken when the field is present and is not the empty string.
\<close>

fun fetch :: "do_state \<Rightarrow> request \<Rightarrow> env \<Rightarrow> response \<times> do_state" where
  "fetch s GET_chats e =
     (case getStorage s of (st, s1) \<Rightarrow> (Conversations (chats st), s1))"
| "fetch s (GET_chat i) e =
     (case getStorage s of (st, s1) \<Rightarrow>
        (case find (\<lambda>c. id_conv c = i) (chats st) of
           None \<Rightarrow> (Chat_not_found, s1)
         | Some chat \<Rightarrow> (Chat chat, s1)))"
| "fetch s (POST_chats conversationId m mdl) e =
     (case getStorage s of (st, s1) \<Rightarrow>
        (case conversationId of
           Some cid \<Rightarrow>
             (if cid \<noteq> [] then post_existing e cid m st s1 else post_new e m mdl st s1)
         | None \<Rightarrow> post_new e m mdl st s1))"
| "fetch s (DELETE_chat i) e =
     (case getStorage s of (st, s1) \<Rightarrow>
        (case findIndex (\<lambda>c. id_conv c = i) (chats st) of
           None \<Rightarrow> (Chat_not_found, s1)
         | Some index \<Rightarrow>
             save_and_respond e Success
               (s1\<lparr>storage := Some (st\<lparr>chats := splice1 index (chats st)\<rparr>)\<rparr>)))"
| "fetch s DELETE_clear e =
     save_and_respond e Success (s\<lparr>storage := Some default_storage\<rparr>)"
| "fetch s GET_preferences e =
     (case getStorage s of (st, s1) \<Rightarrow> (Preferences (preferences st), s1))"
| "fetch s (PUT_preferences prefs) e =
     (case getStorage s of (st, s1) \<Rightarrow>
        save_and_respond e (Preferences (merge_preferences (preferences st) prefs))
          (s1\<lparr>storage := Some (st\<lparr>preferences := merge_preferences (preferences st) prefs\<rparr>)\<rparr>))"
| "fetch s OTHER_preferences e =
     (case getStorage s of (st, s1) \<Rightarrow> (Not_found, s1))"
| "fetch s OTHER e = (Not_found, s)"

text \<open>
  What the object holds, as every later request of the same instance reads it: the
  value \<^verbatim>\<open>getStorage\<close> returns.
\<close>

definition current :: "do_state \<Rightarrow> user_storage" where
  "current s = fst (getStorage s)"

text \<open>What a fresh instance would read back from the durable key.\<close>

definition persisted :: "do_state \<Rightarrow> user_storage" where
  "persisted s = (case durable s of Some d \<Rightarrow> d | None \<Rightarrow> default_storage)"

text \<open>The fresh object of an identity that has stored nothing yet.\<close>

definition empty_do :: do_state where
  "empty_do = \<lparr>storage = None, durable = None\<rparr>"

text \<open>
  A sequence of requests, one after the other, each with its own environment: \<open>run\<close>
  lists the state after each request, \<open>after\<close> is the state after the last one.
\<close>

fun run :: "do_state \<Rightarrow> (request \<times> env) list \<Rightarrow> do_state list" where
  "run s [] = []"
| "run s ((r, e) # rs) = (let s' = snd (fetch s r e) in s' # run s' rs)"

fun after :: "do_state \<Rightarrow> (request \<times> env) list \<Rightarrow> do_state" where
  "after s [] = s"
| "after s ((r, e) # rs) = after (snd (fetch s r e)) rs"

text \<open>
  \<^verbatim>\<open>appendMessage\<close> with no \<^verbatim>\<open>conversationId\<close>, as a request: a message, a model
  and the environment of the call.
\<close>

definition new_conversations :: "(message \<times> string \<times> env) list \<Rightarrow> (request \<times> env) list" where
  "new_conversations calls = map (\<lambda>(m, mdl, e). (POST_chats None m mdl, e)) calls"

text \<open>The operations that write: the four that call \<^verbatim>\<open>saveStorage\<close>.\<close>

fun mutating :: "request \<Rightarrow> bool" where
  "mutating (POST_chats conversationId m mdl) = True"
| "mutating (DELETE_chat i) = True"
| "mutating DELETE_clear = True"
| "mutating (PUT_preferences prefs) = True"
| "mutating r = False"

subsection \<open>Concrete inputs\<close>

text \<open>
  A user message and an environment whose two clock readings agree, for the concrete
  runs below.
\<close>

definition example_message :: "string \<Rightarrow> int \<Rightarrow> message" where
  "example_message txt t = \<lparr>role = User, content = txt, timestamp = t\<rparr>"

definition example_env :: "string \<Rightarrow> int \<Rightarrow> bool \<Rightarrow> env" where
  "example_env uuid t ok = \<lparr>randomUUID = uuid, date_now1 = t, date_now2 = t, put_ok = ok\<rparr>"

definition example_chat :: "string \<Rightarrow> int \<Rightarrow> conversation" where
  "example_chat uuid t = new_chat (example_env uuid t True) (example_message ''hello'' t) ''gpt-4o''"

text \<open>
  The store of an identity after three conversations were started one after the other,
  and a store that holds four records, one more than \<open>MAX_CHATS\<close> (the handler never
  produces it from the empty store; it stands for a durable value written by other
  means).
\<close>

definition three_chats :: do_state where
  "three_chats = after empty_do
     [(POST_chats None (example_message ''a'' 1) ''gpt-4o'', example_env ''c1'' 1 True),
      (POST_chats None (example_message ''b'' 2) ''gpt-4o'', example_env ''c2'' 2 True),
      (POST_chats None (example_message ''c'' 3) ''gpt-4o'', example_env ''c3'' 3 True)]"

definition over_capacity :: do_state where
  "over_capacity =
     \<lparr>storage = Some \<lparr>chats = [example_chat ''c1'' 1, example_chat ''c2'' 2,
                              example_chat ''c3'' 3, example_chat ''c4'' 4],
                     preferences = default_preferences\<rparr>,
      durable = Some \<lparr>chats = [example_chat ''c1'' 1, example_chat ''c2'' 2,
                              example_chat ''c3'' 3, example_chat ''c4'' 4],
                     preferences = default_preferences\<rparr>\<rparr>"

section \<open>Basic facts about the handler\<close>

declare fetch.simps [simp del]

lemma getStorage_eq: "getStorage s = (current s, s\<lparr>storage := Some (current s)\<rparr>)"
  by (cases "storage s") (simp_all add: getStorage_def current_def Let_def)

lemma current_storage_Some [simp]: "current (s\<lparr>storage := Some st\<rparr>) = st"
  by (simp add: current_def getStorage_def)

lemma current_durable_upd [simp]:
  "storage s = Some st \<Longrightarrow> current (s\<lparr>durable := d\<rparr>) = st"
  by (simp add: current_def getStorage_def)

lemma persisted_simps [simp]:
  "persisted (s\<lparr>storage := x\<rparr>) = persisted s"
  "persisted (s\<lparr>durable := Some st\<rparr>) = st"
  by (simp_all add: persisted_def)

lemma save_and_respond_current [simp]:
  "current (snd (save_and_respond e r (s\<lparr>storage := Some st\<rparr>))) = st"
  by (simp add: save_and_respond_def saveStorage_def)

lemma save_and_respond_ok:
  "put_ok e \<Longrightarrow> save_and_respond e r s = (r, s\<lparr>durable := storage s\<rparr>)"
  by (simp add: save_and_respond_def saveStorage_def)

lemma save_and_respond_fail:
  "\<not> put_ok e \<Longrightarrow> save_and_respond e r s = (Internal_error, s)"
  by (simp add: save_and_respond_def saveStorage_def)

lemma fetch_new:
  "fetch s (POST_chats None m mdl) e =
     save_and_respond e (Chat (new_chat e m mdl))
       (s\<lparr>storage := Some ((current s)\<lparr>chats :=
          evict_oldest (chats (current s)) @ [new_chat e m mdl]\<rparr>)\<rparr>)"
  by (simp add: fetch.simps getStorage_eq post_new_def)

lemma fetch_new_empty:
  "fetch s (POST_chats (Some []) m mdl) e = fetch s (POST_chats None m mdl) e"
  by (simp add: fetch.simps)

lemma fetch_existing:
  "cid \<noteq> [] \<Longrightarrow>
   fetch s (POST_chats (Some cid) m mdl) e =
     (case find (\<lambda>c. id_conv c = cid) (chats (current s)) of
        None \<Rightarrow> (Chat_not_found, s\<lparr>storage := Some (current s)\<rparr>)
      | Some chat \<Rightarrow>
          save_and_respond e (Chat (push_message e m chat))
            (s\<lparr>storage := Some ((current s)\<lparr>chats :=
                 update_first (\<lambda>c. id_conv c = cid) (push_message e m) (chats (current s))\<rparr>)\<rparr>))"
  by (simp add: fetch.simps getStorage_eq post_existing_def split: option.splits)

lemma fetch_get:
  "fetch s (GET_chat i) e =
     (case find (\<lambda>c. id_conv c = i) (chats (current s)) of
        None \<Rightarrow> (Chat_not_found, s\<lparr>storage := Some (current s)\<rparr>)
      | Some chat \<Rightarrow> (Chat chat, s\<lparr>storage := Some (current s)\<rparr>))"
  by (simp add: fetch.simps getStorage_eq split: option.splits)

lemma fetch_put_preferences:
  "fetch s (PUT_preferences prefs) e =
     save_and_respond e (Preferences (merge_preferences (preferences (current s)) prefs))
       (s\<lparr>storage := Some ((current s)\<lparr>preferences :=
          merge_preferences (preferences (current s)) prefs\<rparr>)\<rparr>)"
  by (simp add: fetch.simps getStorage_eq)

lemma chats_after_new:
  "chats (current (snd (fetch s (POST_chats None m mdl) e))) =
     evict_oldest (chats (current s)) @ [new_chat e m mdl]"
  by (simp add: fetch_new)

lemma persisted_after_new:
  "persisted (snd (fetch s (POST_chats None m mdl) e)) =
     (if put_ok e
      then (current s)\<lparr>chats := evict_oldest (chats (current s)) @ [new_chat e m mdl]\<rparr>
      else persisted s)"
  by (simp add: fetch_new save_and_respond_def saveStorage_def)

lemma updatedAt_new_chat [simp]: "updatedAt (new_chat e m mdl) = date_now2 e"
  by (simp add: new_chat_def)

lemma id_conv_new_chat [simp]: "id_conv (new_chat e m mdl) = randomUUID e"
  by (simp add: new_chat_def)

lemma length_evict_oldest:
  "length (evict_oldest cs) = (if length cs \<ge> MAX_CHATS then length cs - 1 else length cs)"
  by (simp add: evict_oldest_def)

lemma set_evict_oldest: "set (evict_oldest cs) \<subseteq> set cs"
proof (cases "length cs \<ge> MAX_CHATS")
  case True
  have "set (tl (sort_key updatedAt cs)) \<subseteq> set (sort_key updatedAt cs)"
    by (cases "sort_key updatedAt cs") auto
  with True show ?thesis by (simp add: evict_oldest_def)
next
  case False
  then show ?thesis by (simp add: evict_oldest_def)
qed

lemma update_first_decomp:
  "find P xs = Some c \<Longrightarrow>
   \<exists>pre post. xs = pre @ c # post \<and> (\<forall>x\<in>set pre. \<not> P x) \<and> P c \<and>
     update_first P f xs = pre @ f c # post"
proof (induction xs)
  case Nil
  then show ?case by simp
next
  case (Cons x xs)
  show ?case
  proof (cases "P x")
    case True
    with Cons.prems have "x = c" by simp
    with True show ?thesis by (intro exI [of _ "[]"] exI [of _ xs]) simp
  next
    case False
    with Cons.prems have "find P xs = Some c" by simp
    from Cons.IH [OF this] obtain pre post where
      "xs = pre @ c # post" "\<forall>x\<in>set pre. \<not> P x" "P c" "update_first P f xs = pre @ f c # post"
      by blast
    with False show ?thesis
      by (intro exI [of _ "x # pre"] exI [of _ post]) simp
  qed
qed

lemma find_append_fresh:
  "\<forall>x\<in>set xs. \<not> P x \<Longrightarrow> P y \<Longrightarrow> find P (xs @ [y]) = Some y"
  by (induction xs) simp_all

lemma new_chat_put_ok [simp]: "new_chat (e\<lparr>put_ok := b\<rparr>) m mdl = new_chat e m mdl"
  by (simp add: new_chat_def)

lemma push_message_put_ok [simp]: "push_message (e\<lparr>put_ok := b\<rparr>) = push_message e"
  by (rule ext)+ (simp add: push_message_def)

lemma save_and_respond_storage [simp]:
  "storage (snd (save_and_respond e r s)) = storage s"
  by (simp add: save_and_respond_def saveStorage_def)

lemma save_and_respond_durable:
  "durable (snd (save_and_respond e r s)) = (if put_ok e then storage s else durable s)"
  by (simp add: save_and_respond_def saveStorage_def)

lemma save_and_respond_fst:
  "fst (save_and_respond e r s) = (if put_ok e then r else Internal_error)"
  by (simp add: save_and_respond_def saveStorage_def)

lemma current_empty_do: "current empty_do = default_storage"
  by (simp add: current_def getStorage_def empty_do_def)

lemma persisted_empty_do: "persisted empty_do = default_storage"
  by (simp add: persisted_def empty_do_def)

lemma chats_three_chats:
  "chats (current three_chats) =
     [new_chat (example_env ''c1'' 1 True) (example_message ''a'' 1) ''gpt-4o'',
      new_chat (example_env ''c2'' 2 True) (example_message ''b'' 2) ''gpt-4o'',
      new_chat (example_env ''c3'' 3 True) (example_message ''c'' 3) ''gpt-4o'']"
  by (simp add: three_chats_def chats_after_new current_empty_do default_storage_def
      evict_oldest_def MAX_CHATS_def)

lemma chats_over_capacity:
  "chats (current over_capacity) =
     [example_chat ''c1'' 1, example_chat ''c2'' 2, example_chat ''c3'' 3, example_chat ''c4'' 4]"
  by (simp add: over_capacity_def current_def getStorage_def)

text \<open>
  The record that the sort puts first: it has the least \<open>updatedAt\<close>, among the
  records with that timestamp it is the first of the array (the sort is stable), and
  the rest of the sorted array is the array without it.
\<close>

lemma hd_sort_key_least:
  assumes "xs \<noteq> []"
  shows "hd (sort_key f xs) \<in> set xs" and "\<forall>x\<in>set xs. f (hd (sort_key f xs)) \<le> f x"
    and "find (\<lambda>x. f x = f (hd (sort_key f xs))) xs = Some (hd (sort_key f xs))"
    and "mset (tl (sort_key f xs)) = mset xs - {#hd (sort_key f xs)#}"
proof -
  obtain y ys where ys: "sort_key f xs = y # ys"
    using assms by (cases "sort_key f xs") (auto dest: arg_cong [where f = length])
  have same: "set (y # ys) = set xs" using ys [symmetric] by simp
  then show "hd (sort_key f xs) \<in> set xs" using ys by auto
  have "sorted (map f (y # ys))" using ys [symmetric] by simp
  then have le: "\<forall>x\<in>set (y # ys). f y \<le> f x" by auto
  have "\<forall>x\<in>set xs. f y \<le> f x"
    unfolding same [symmetric] by (rule le)
  then show "\<forall>x\<in>set xs. f (hd (sort_key f xs)) \<le> f x"
    using ys by simp
  have "filter (\<lambda>x. f x = f y) xs = filter (\<lambda>x. f x = f y) (y # ys)"
    using sort_key_stable [of f "f y" xs] ys by simp
  then have "filter (\<lambda>x. f x = f y) xs = y # filter (\<lambda>x. f x = f y) ys" by simp
  then have "find (\<lambda>x. f x = f y) xs = Some y"
    by (induction xs) (auto split: if_splits)
  then show "find (\<lambda>x. f x = f (hd (sort_key f xs))) xs = Some (hd (sort_key f xs))"
    using ys by simp
  have m: "mset (y # ys) = mset xs" using ys [symmetric] by simp
  show "mset (tl (sort_key f xs)) = mset xs - {#hd (sort_key f xs)#}"
    using ys by (simp flip: m)
qed

text \<open>One new-conversation request keeps the bound, in memory and in the durable value.\<close>

lemma bound_step:
  assumes "length (chats (current s)) \<le> MAX_CHATS" and "length (chats (persisted s)) \<le> MAX_CHATS"
  shows "length (chats (current (snd (fetch s (POST_chats None m mdl) e)))) \<le> MAX_CHATS"
    and "length (chats (persisted (snd (fetch s (POST_chats None m mdl) e)))) \<le> MAX_CHATS"
  using assms
  by (auto simp: chats_after_new persisted_after_new length_evict_oldest MAX_CHATS_def)

lemma bound_run:
  "length (chats (current s)) \<le> MAX_CHATS \<Longrightarrow> length (chats (persisted s)) \<le> MAX_CHATS \<Longrightarrow>
   s' \<in> set (run s (new_conversations calls)) \<Longrightarrow>
   length (chats (current s')) \<le> MAX_CHATS \<and> length (chats (persisted s')) \<le> MAX_CHATS"
proof (induction calls arbitrary: s)
  case Nil
  then show ?case by (simp add: new_conversations_def)
next
  case (Cons c calls)
  obtain m mdl e where c: "c = (m, mdl, e)" by (cases c) auto
  let ?s1 = "snd (fetch s (POST_chats None m mdl) e)"
  have b: "length (chats (current ?s1)) \<le> MAX_CHATS" "length (chats (persisted ?s1)) \<le> MAX_CHATS"
    using bound_step [OF Cons.prems(1,2)] by simp_all
  from Cons.prems(3) have "s' = ?s1 \<or> s' \<in> set (run ?s1 (new_conversations calls))"
    by (simp add: c new_conversations_def Let_def)
  then show ?case
    using b Cons.IH [OF b] by blast
qed

section \<open>The bound and the eviction order\<close>

text \<open>
  Claim C1. For every sequence of \<^verbatim>\<open>appendMessage\<close> calls with no
  \<^verbatim>\<open>conversationId\<close>, run one after the other against the store of one identity that
  starts empty, the number of stored conversation records is at most the capacity
  \<open>MAX_CHATS = 3\<close> after each call. The calls are arbitrary (any message, model,
  generated id, clock readings, and whether the put succeeds); the bound is shown for
  what the object holds in memory and for the durable value.
\<close>

theorem bound_invariant:
  assumes "chats (current s) = []" and "chats (persisted s) = []"
  shows "\<forall>s'\<in>set (run s (new_conversations calls)).
           length (chats (current s')) \<le> MAX_CHATS \<and> length (chats (persisted s')) \<le> MAX_CHATS"
  using assms bound_run [of s _ calls] by simp

text \<open>
  Four conversations started on the fresh object: the store holds 1, 2, 3 and again 3
  records.
\<close>

theorem bound_invariant_witness:
  "chats (current empty_do) = [] \<and> chats (persisted empty_do) = [] \<and>
   map (\<lambda>s'. length (chats (current s'))) (run empty_do (new_conversations
         [(example_message ''a'' 1, ''gpt-4o'', example_env ''c1'' 1 True),
          (example_message ''b'' 2, ''gpt-4o'', example_env ''c2'' 2 True),
          (example_message ''c'' 3, ''gpt-4o'', example_env ''c3'' 3 True),
          (example_message ''d'' 4, ''gpt-4o'', example_env ''c4'' 4 True)])) = [1, 2, 3, 3] \<and>
   list_all (\<lambda>s'. length (chats (current s')) \<le> MAX_CHATS \<and> length (chats (persisted s')) \<le> MAX_CHATS)
     (run empty_do (new_conversations
         [(example_message ''a'' 1, ''gpt-4o'', example_env ''c1'' 1 True),
          (example_message ''b'' 2, ''gpt-4o'', example_env ''c2'' 2 True),
          (example_message ''c'' 3, ''gpt-4o'', example_env ''c3'' 3 True),
          (example_message ''d'' 4, ''gpt-4o'', example_env ''c4'' 4 True)]))"
proof -
  have h1: "chats (current empty_do) = []"
    by (simp add: current_empty_do default_storage_def)
  have h2: "chats (persisted empty_do) = []"
    by (simp add: persisted_empty_do default_storage_def)
  have lens: "map (\<lambda>s'. length (chats (current s'))) (run empty_do (new_conversations
         [(example_message ''a'' 1, ''gpt-4o'', example_env ''c1'' 1 True),
          (example_message ''b'' 2, ''gpt-4o'', example_env ''c2'' 2 True),
          (example_message ''c'' 3, ''gpt-4o'', example_env ''c3'' 3 True),
          (example_message ''d'' 4, ''gpt-4o'', example_env ''c4'' 4 True)])) = [1, 2, 3, 3]"
    by (simp add: new_conversations_def Let_def chats_after_new h1 evict_oldest_def MAX_CHATS_def
        example_env_def)
  show ?thesis
    using h1 h2 lens bound_invariant [OF h1 h2] by (simp add: list_all_iff)
qed

text \<open>
  Claim C2. With capacity 3, after four new conversations C1, C2, C3, C4 started one
  after the other on an empty store, with nothing in between, the store holds exactly
  the records of C2, C3 and C4, and the record of C1 is absent. The calls are sequential:
  the clock reading that becomes \<open>updatedAt\<close> does not go back from C1 to C2 to C3
  (equal readings are allowed, the stable sort then keeps the order of creation), and
  the id generated for C1 is not generated again.
\<close>

theorem fifo_four_creations:
  assumes "chats (current s) = []"
    and "date_now2 e1 \<le> date_now2 e2" and "date_now2 e2 \<le> date_now2 e3"
    and "randomUUID e1 \<notin> {randomUUID e2, randomUUID e3, randomUUID e4}"
  shows "chats (current (after s
           [(POST_chats None m1 d1, e1), (POST_chats None m2 d2, e2),
            (POST_chats None m3 d3, e3), (POST_chats None m4 d4, e4)])) =
         [new_chat e2 m2 d2, new_chat e3 m3 d3, new_chat e4 m4 d4] \<and>
         new_chat e1 m1 d1 \<notin> set (chats (current (after s
           [(POST_chats None m1 d1, e1), (POST_chats None m2 d2, e2),
            (POST_chats None m3 d3, e3), (POST_chats None m4 d4, e4)]))) \<and>
         find (\<lambda>c. id_conv c = randomUUID e1) (chats (current (after s
           [(POST_chats None m1 d1, e1), (POST_chats None m2 d2, e2),
            (POST_chats None m3 d3, e3), (POST_chats None m4 d4, e4)]))) = None"
proof -
  let ?s1 = "snd (fetch s (POST_chats None m1 d1) e1)"
  let ?s2 = "snd (fetch ?s1 (POST_chats None m2 d2) e2)"
  let ?s3 = "snd (fetch ?s2 (POST_chats None m3 d3) e3)"
  let ?s4 = "snd (fetch ?s3 (POST_chats None m4 d4) e4)"
  have c1: "chats (current ?s1) = [new_chat e1 m1 d1]"
    using assms(1) by (simp add: chats_after_new evict_oldest_def MAX_CHATS_def)
  have c2: "chats (current ?s2) = [new_chat e1 m1 d1, new_chat e2 m2 d2]"
    by (simp add: chats_after_new [of ?s1] c1 evict_oldest_def MAX_CHATS_def)
  have c3: "chats (current ?s3) = [new_chat e1 m1 d1, new_chat e2 m2 d2, new_chat e3 m3 d3]"
    by (simp add: chats_after_new [of ?s2] c2 evict_oldest_def MAX_CHATS_def)
  have srt: "sort_key updatedAt [new_chat e1 m1 d1, new_chat e2 m2 d2, new_chat e3 m3 d3] =
      [new_chat e1 m1 d1, new_chat e2 m2 d2, new_chat e3 m3 d3]"
    using assms(2,3) by simp
  have c4: "chats (current ?s4) = [new_chat e2 m2 d2, new_chat e3 m3 d3, new_chat e4 m4 d4]"
    by (simp only: chats_after_new [of ?s3] c3 evict_oldest_def srt) (simp add: MAX_CHATS_def)
  have fin: "after s [(POST_chats None m1 d1, e1), (POST_chats None m2 d2, e2),
            (POST_chats None m3 d3, e3), (POST_chats None m4 d4, e4)] = ?s4"
    by simp
  have ne: "new_chat e1 m1 d1 \<noteq> new_chat e2 m2 d2" "new_chat e1 m1 d1 \<noteq> new_chat e3 m3 d3"
    "new_chat e1 m1 d1 \<noteq> new_chat e4 m4 d4"
    using assms(4) by (auto simp: new_chat_def)
  show ?thesis
    unfolding fin c4 using ne assms(4) by auto
qed

text \<open>The four creations on the fresh object, at the clock readings 1, 2, 3 and 4.\<close>

theorem fifo_four_creations_witness:
  "chats (current empty_do) = [] \<and>
   date_now2 (example_env ''c1'' 1 True) \<le> date_now2 (example_env ''c2'' 2 True) \<and>
   date_now2 (example_env ''c2'' 2 True) \<le> date_now2 (example_env ''c3'' 3 True) \<and>
   chats (current (after empty_do
     [(POST_chats None (example_message ''a'' 1) ''gpt-4o'', example_env ''c1'' 1 True),
      (POST_chats None (example_message ''b'' 2) ''gpt-4o'', example_env ''c2'' 2 True),
      (POST_chats None (example_message ''c'' 3) ''gpt-4o'', example_env ''c3'' 3 True),
      (POST_chats None (example_message ''d'' 4) ''gpt-4o'', example_env ''c4'' 4 True)])) =
   [new_chat (example_env ''c2'' 2 True) (example_message ''b'' 2) ''gpt-4o'',
    new_chat (example_env ''c3'' 3 True) (example_message ''c'' 3) ''gpt-4o'',
    new_chat (example_env ''c4'' 4 True) (example_message ''d'' 4) ''gpt-4o'']"
proof -
  have h1: "chats (current empty_do) = []"
    by (simp add: current_empty_do default_storage_def)
  have h2: "date_now2 (example_env ''c1'' 1 True) \<le> date_now2 (example_env ''c2'' 2 True)"
    by (simp add: example_env_def)
  have h3: "date_now2 (example_env ''c2'' 2 True) \<le> date_now2 (example_env ''c3'' 3 True)"
    by (simp add: example_env_def)
  have h4: "randomUUID (example_env ''c1'' 1 True) \<notin>
      {randomUUID (example_env ''c2'' 2 True), randomUUID (example_env ''c3'' 3 True),
       randomUUID (example_env ''c4'' 4 True)}"
    by (simp add: example_env_def)
  show ?thesis
    using h1 h2 h3 fifo_four_creations [OF h1 h2 h3 h4] by blast
qed

text \<open>
  Claim C3. With capacity 3 and the records C1, C2, C3 present in the order of their
  creation, if a message is appended to C1, so that the \<open>updatedAt\<close> of C1 becomes the
  newest, and a new conversation C4 is started then, the record evicted is C2, the
  oldest by \<open>updatedAt\<close>, and not C1: the store holds exactly C1 (with the appended
  message), C3 and C4. Of the order of the timestamps the proof needs only that C2 is
  not newer than C3 and is older than the reading of the append; the ids are the
  generated ones, non-empty and different from each other.
\<close>

theorem append_protects_from_eviction:
  assumes "chats (current s) = [c1, c2, c3]"
    and "id_conv c1 \<noteq> []"
    and "id_conv c2 \<notin> {id_conv c1, id_conv c3, randomUUID e4}"
    and "updatedAt c2 \<le> updatedAt c3"
    and "updatedAt c2 < date_now1 ea"
  shows "set (chats (current (after s
           [(POST_chats (Some (id_conv c1)) m mdl, ea), (POST_chats None m4 d4, e4)]))) =
         {push_message ea m c1, c3, new_chat e4 m4 d4} \<and>
         length (chats (current (after s
           [(POST_chats (Some (id_conv c1)) m mdl, ea), (POST_chats None m4 d4, e4)]))) = 3 \<and>
         c2 \<notin> set (chats (current (after s
           [(POST_chats (Some (id_conv c1)) m mdl, ea), (POST_chats None m4 d4, e4)]))) \<and>
         find (\<lambda>c. id_conv c = id_conv c2) (chats (current (after s
           [(POST_chats (Some (id_conv c1)) m mdl, ea), (POST_chats None m4 d4, e4)]))) = None"
proof -
  let ?c1 = "push_message ea m c1"
  let ?s1 = "snd (fetch s (POST_chats (Some (id_conv c1)) m mdl) ea)"
  let ?s2 = "snd (fetch ?s1 (POST_chats None m4 d4) e4)"
  have a1: "chats (current ?s1) = [?c1, c2, c3]"
    using assms(1,2) by (simp add: fetch_existing)
  have upd: "updatedAt ?c1 = date_now1 ea" "id_conv ?c1 = id_conv c1"
    by (simp_all add: push_message_def)
  have srt: "sort_key updatedAt [?c1, c2, c3] =
      (if date_now1 ea \<le> updatedAt c3 then [c2, ?c1, c3] else [c2, c3, ?c1])"
    using assms(4,5) by (simp add: upd)
  have a2: "chats (current ?s2) =
      (if date_now1 ea \<le> updatedAt c3 then [?c1, c3, new_chat e4 m4 d4]
       else [c3, ?c1, new_chat e4 m4 d4])"
    by (simp only: chats_after_new [of ?s1] a1 evict_oldest_def srt) (simp add: MAX_CHATS_def)
  have fin: "after s [(POST_chats (Some (id_conv c1)) m mdl, ea), (POST_chats None m4 d4, e4)] = ?s2"
    by simp
  have ne: "c2 \<noteq> ?c1" "c2 \<noteq> c3" "c2 \<noteq> new_chat e4 m4 d4"
    using assms(3) upd(2) by (auto simp: new_chat_def)
  show ?thesis
    unfolding fin a2 using ne assms(3) upd(2) by auto
qed

text \<open>
  On the store with the conversations c1, c2, c3 (created at 1, 2, 3): a message
  appended to c1 at 4, then a new conversation c4 at 5. The store holds c3, c1, c4.
\<close>

theorem append_protects_from_eviction_witness:
  "map id_conv (chats (current three_chats)) = [''c1'', ''c2'', ''c3''] \<and>
   map updatedAt (chats (current three_chats)) = [1, 2, 3] \<and>
   map id_conv (chats (current (after three_chats
     [(POST_chats (Some ''c1'') (example_message ''again'' 4) ''gpt-4o'', example_env ''unused'' 4 True),
      (POST_chats None (example_message ''d'' 5) ''gpt-4o'', example_env ''c4'' 5 True)]))) =
   [''c3'', ''c1'', ''c4'']"
proof -
  let ?c1 = "new_chat (example_env ''c1'' 1 True) (example_message ''a'' 1) ''gpt-4o''"
  let ?c2 = "new_chat (example_env ''c2'' 2 True) (example_message ''b'' 2) ''gpt-4o''"
  let ?c3 = "new_chat (example_env ''c3'' 3 True) (example_message ''c'' 3) ''gpt-4o''"
  have h2: "id_conv ?c1 \<noteq> []" by (simp add: example_env_def)
  have h3: "id_conv ?c2 \<notin> {id_conv ?c1, id_conv ?c3, randomUUID (example_env ''c4'' 5 True)}"
    by (simp add: example_env_def)
  have h4: "updatedAt ?c2 \<le> updatedAt ?c3" by (simp add: example_env_def)
  have h5: "updatedAt ?c2 < date_now1 (example_env ''unused'' 4 True)" by (simp add: example_env_def)
  have "map id_conv (chats (current (after three_chats
     [(POST_chats (Some ''c1'') (example_message ''again'' 4) ''gpt-4o'', example_env ''unused'' 4 True),
      (POST_chats None (example_message ''d'' 5) ''gpt-4o'', example_env ''c4'' 5 True)]))) =
   [''c3'', ''c1'', ''c4'']"
    by (simp add: chats_after_new fetch_existing chats_three_chats evict_oldest_def MAX_CHATS_def
        push_message_def example_env_def new_chat_def)
  then show ?thesis
    using append_protects_from_eviction [OF chats_three_chats h2 h3 h4 h5]
    by (simp add: chats_three_chats example_env_def)
qed

section \<open>Unknown ids\<close>

text \<open>
  Claim C4. \<^verbatim>\<open>appendMessage\<close> called with a \<^verbatim>\<open>conversationId\<close> that matches no
  existing record fails with NotFound (the 404 \<open>Chat_not_found\<close>), does not create a
  conversation under that id, and leaves what the store holds unchanged, in memory and
  in the durable value. The id is one that the object receives: both callers are in
  \<^verbatim>\<open>routes/chat.ts\<close>, which passes either a value accepted by
  \<^verbatim>\<open>z.string().uuid().optional()\<close> or the \<^verbatim>\<open>id\<close> of the record just returned, so a
  \<^verbatim>\<open>conversationId\<close> that is present is never the empty string.
\<close>

theorem append_unknown_id_not_found:
  assumes "cid \<noteq> []" and "find (\<lambda>c. id_conv c = cid) (chats (current s)) = None"
  shows "fst (fetch s (POST_chats (Some cid) m mdl) e) = Chat_not_found \<and>
         current (snd (fetch s (POST_chats (Some cid) m mdl) e)) = current s \<and>
         durable (snd (fetch s (POST_chats (Some cid) m mdl) e)) = durable s \<and>
         find (\<lambda>c. id_conv c = cid)
           (chats (current (snd (fetch s (POST_chats (Some cid) m mdl) e)))) = None"
  using assms by (simp add: fetch_existing)

text \<open>The id \<^verbatim>\<open>nonexistent\<close> on the store that holds c1, c2 and c3.\<close>

theorem append_unknown_id_not_found_witness:
  "fst (fetch three_chats (POST_chats (Some ''nonexistent'') (example_message ''hello'' 9) ''gpt-4o'')
          (example_env ''c9'' 9 True)) = Chat_not_found \<and>
   current (snd (fetch three_chats (POST_chats (Some ''nonexistent'') (example_message ''hello'' 9) ''gpt-4o'')
          (example_env ''c9'' 9 True))) = current three_chats"
proof -
  have h1: "''nonexistent'' \<noteq> []" by simp
  have h2: "find (\<lambda>c. id_conv c = ''nonexistent'') (chats (current three_chats)) = None"
    by (simp add: chats_three_chats example_env_def)
  show ?thesis
    using append_unknown_id_not_found [OF h1 h2] by blast
qed

section \<open>A store above its capacity\<close>

text \<open>
  Claim C5, as amended. When the store holds at least \<open>MAX_CHATS\<close> records, also more
  than \<open>MAX_CHATS\<close>, a new-conversation call evicts exactly one record before it
  inserts the new one: a record with the smallest \<open>updatedAt\<close>, the first of the array
  among those with that timestamp. The number of records is therefore the same after
  the call as before; it is at most the capacity after the call only if it was before.
\<close>

theorem eviction_removes_one:
  assumes "length (chats (current s)) \<ge> MAX_CHATS"
  shows "\<exists>old. old \<in> set (chats (current s)) \<and>
           (\<forall>c\<in>set (chats (current s)). updatedAt old \<le> updatedAt c) \<and>
           find (\<lambda>c. updatedAt c = updatedAt old) (chats (current s)) = Some old \<and>
           mset (chats (current (snd (fetch s (POST_chats None m mdl) e)))) =
             mset (chats (current s)) - {#old#} + {#new_chat e m mdl#} \<and>
           length (chats (current (snd (fetch s (POST_chats None m mdl) e)))) =
             length (chats (current s))"
proof -
  let ?cs = "chats (current s)"
  let ?old = "hd (sort_key updatedAt ?cs)"
  have ne: "?cs \<noteq> []" using assms by (auto simp: MAX_CHATS_def)
  have after: "chats (current (snd (fetch s (POST_chats None m mdl) e))) =
      tl (sort_key updatedAt ?cs) @ [new_chat e m mdl]"
    using assms by (simp add: chats_after_new evict_oldest_def)
  have len: "length (tl (sort_key updatedAt ?cs) @ [new_chat e m mdl]) = length ?cs"
    using ne by (cases ?cs) simp_all
  have "mset (tl (sort_key updatedAt ?cs) @ [new_chat e m mdl]) =
      mset ?cs - {#?old#} + {#new_chat e m mdl#}"
    using hd_sort_key_least(4) [OF ne, of updatedAt] by simp
  then show ?thesis
    using hd_sort_key_least(1,2,3) [OF ne, of updatedAt] len unfolding after by blast
qed

text \<open>The store with four records holds four records after a new conversation.\<close>

theorem eviction_removes_one_witness:
  "MAX_CHATS \<le> length (chats (current over_capacity)) \<and>
   length (chats (current (snd (fetch over_capacity
     (POST_chats None (example_message ''hello'' 5) ''gpt-4o'') (example_env ''c5'' 5 True))))) =
   length (chats (current over_capacity))"
proof -
  have h: "MAX_CHATS \<le> length (chats (current over_capacity))"
    by (simp add: chats_over_capacity MAX_CHATS_def)
  show ?thesis
    using h eviction_removes_one [OF h] by blast
qed

text \<open>
  Claim C5 as written fails: from a store with four records, a new-conversation call
  leaves four records, more than the capacity.
\<close>

theorem self_heal_counterexample:
  "length (chats (current over_capacity)) = 4 \<and>
   length (chats (current (snd (fetch over_capacity
     (POST_chats None (example_message ''hello'' 5) ''gpt-4o'') (example_env ''c5'' 5 True))))) = 4 \<and>
   \<not> 4 \<le> MAX_CHATS"
  by (simp add: chats_after_new chats_over_capacity length_evict_oldest MAX_CHATS_def)

section \<open>A put that fails\<close>

text \<open>
  Claim C6, as amended. When the put to the durable storage fails, a mutating operation
  answers with the internal error (or with NotFound, when it found no record and
  changed nothing) and the durable value is the one of before; the in-memory state is
  not restored: \<^verbatim>\<open>this.storage\<close> is the one that the same operation leaves when the
  put succeeds, and the later requests of the instance read it. This holds for every
  request, the four mutating ones among them.
\<close>

theorem failed_put_keeps_memory:
  assumes "\<not> put_ok e"
  shows "durable (snd (fetch s r e)) = durable s \<and>
         storage (snd (fetch s r e)) = storage (snd (fetch s r (e\<lparr>put_ok := True\<rparr>))) \<and>
         (mutating r \<longrightarrow>
            fst (fetch s r e) =
              (if fst (fetch s r (e\<lparr>put_ok := True\<rparr>)) = Chat_not_found
               then Chat_not_found else Internal_error))"
proof (cases r)
  case (POST_chats conversationId m mdl)
  have new: "?thesis" if "conversationId = None \<or> conversationId = Some []"
    using that assms
    by (auto simp: POST_chats fetch_new_empty fetch_new save_and_respond_durable
        save_and_respond_fst)
  show ?thesis
  proof (cases conversationId)
    case None
    then show ?thesis by (simp add: new)
  next
    case (Some cid)
    show ?thesis
    proof (cases "cid = []")
      case True
      with Some show ?thesis by (simp add: new)
    next
      case False
      then show ?thesis
        using assms
        by (cases "find (\<lambda>c. id_conv c = cid) (chats (current s))")
          (simp_all add: POST_chats Some fetch_existing save_and_respond_durable
            save_and_respond_fst)
    qed
  qed
next
  case (DELETE_chat i)
  show ?thesis
    using assms
    by (cases "findIndex (\<lambda>c. id_conv c = i) (chats (current s))")
      (simp_all add: DELETE_chat fetch.simps getStorage_eq save_and_respond_durable
        save_and_respond_fst)
qed (use assms in \<open>simp_all add: fetch.simps getStorage_eq save_and_respond_durable
        save_and_respond_fst split: option.splits\<close>)

text \<open>
  A fourth conversation on the store that holds c1, c2 and c3, with a put that fails:
  the answer is the internal error and the durable value still lists c1, c2, c3, while
  the object holds c2, c3, c4 in memory, as after a put that succeeds.
\<close>

theorem failed_put_keeps_memory_witness:
  "\<not> put_ok (example_env ''c4'' 4 False) \<and>
   map id_conv (chats (current three_chats)) = [''c1'', ''c2'', ''c3''] \<and>
   map id_conv (chats (persisted three_chats)) = [''c1'', ''c2'', ''c3''] \<and>
   fst (fetch three_chats (POST_chats None (example_message ''d'' 4) ''gpt-4o'')
          (example_env ''c4'' 4 False)) = Internal_error \<and>
   map id_conv (chats (current (snd (fetch three_chats
          (POST_chats None (example_message ''d'' 4) ''gpt-4o'')
          (example_env ''c4'' 4 False))))) = [''c2'', ''c3'', ''c4''] \<and>
   durable (snd (fetch three_chats (POST_chats None (example_message ''d'' 4) ''gpt-4o'')
          (example_env ''c4'' 4 False))) = durable three_chats \<and>
   storage (snd (fetch three_chats (POST_chats None (example_message ''d'' 4) ''gpt-4o'')
          (example_env ''c4'' 4 False))) =
     storage (snd (fetch three_chats (POST_chats None (example_message ''d'' 4) ''gpt-4o'')
          ((example_env ''c4'' 4 False)\<lparr>put_ok := True\<rparr>)))"
proof -
  have h: "\<not> put_ok (example_env ''c4'' 4 False)"
    by (simp add: example_env_def)
  have before: "map id_conv (chats (current three_chats)) = [''c1'', ''c2'', ''c3'']"
    by (simp add: chats_three_chats example_env_def)
  have pers: "map id_conv (chats (persisted three_chats)) = [''c1'', ''c2'', ''c3'']"
    by (simp add: three_chats_def persisted_after_new chats_after_new current_empty_do
        default_storage_def evict_oldest_def MAX_CHATS_def example_env_def)
  have after: "map id_conv (chats (current (snd (fetch three_chats
          (POST_chats None (example_message ''d'' 4) ''gpt-4o'')
          (example_env ''c4'' 4 False))))) = [''c2'', ''c3'', ''c4'']"
    by (simp add: chats_after_new chats_three_chats evict_oldest_def MAX_CHATS_def
        example_env_def)
  have ok: "fst (fetch three_chats (POST_chats None (example_message ''d'' 4) ''gpt-4o'')
          ((example_env ''c4'' 4 False)\<lparr>put_ok := True\<rparr>)) \<noteq> Chat_not_found"
    by (simp add: fetch_new save_and_respond_fst)
  show ?thesis
    using h before pers after ok
      failed_put_keeps_memory [OF h, of three_chats
        "POST_chats None (example_message ''d'' 4) ''gpt-4o''"]
    by simp
qed

text \<open>
  Claim C6 as written fails: on the empty store, a new conversation whose put fails is
  answered with the internal error, and the store then holds the new record in memory,
  where it held none before.
\<close>

theorem failed_put_counterexample:
  "\<not> put_ok (example_env ''c1'' 1 False) \<and>
   chats (current empty_do) = [] \<and>
   fst (fetch empty_do (POST_chats None (example_message ''hello'' 1) ''gpt-4o'')
          (example_env ''c1'' 1 False)) = Internal_error \<and>
   chats (current (snd (fetch empty_do (POST_chats None (example_message ''hello'' 1) ''gpt-4o'')
          (example_env ''c1'' 1 False)))) =
     [new_chat (example_env ''c1'' 1 False) (example_message ''hello'' 1) ''gpt-4o'']"
  by (simp add: fetch_new save_and_respond_fail current_empty_do default_storage_def
      evict_oldest_def MAX_CHATS_def example_env_def)

section \<open>Reading back and appending\<close>

text \<open>
  Claim C8. For every message \<open>m\<close> and model id, creating a new conversation with
  \<^verbatim>\<open>appendMessage\<close> (no \<^verbatim>\<open>conversationId\<close>) and then calling \<^verbatim>\<open>getConversation\<close>
  on the id of the returned record succeeds and returns a record whose message list is
  exactly \<open>[m]\<close>. A record is returned when the put succeeds; the generated id is
  fresh, that is, not the id of a record of the store.
\<close>

theorem round_trip:
  assumes "put_ok e" and "randomUUID e \<notin> id_conv ` set (chats (current s))"
  shows "\<exists>c s'. fetch s (POST_chats None m mdl) e = (Chat c, s') \<and>
           fetch s' (GET_chat (id_conv c)) e' = (Chat c, s') \<and> messages c = [m]"
proof -
  let ?c = "new_chat e m mdl"
  let ?st = "(current s)\<lparr>chats := evict_oldest (chats (current s)) @ [?c]\<rparr>"
  let ?s' = "s\<lparr>storage := Some ?st, durable := Some ?st\<rparr>"
  have post: "fetch s (POST_chats None m mdl) e = (Chat ?c, ?s')"
    using assms(1) by (simp add: fetch_new save_and_respond_ok)
  have cur: "current ?s' = ?st"
    by (simp add: current_def getStorage_def)
  have "\<forall>x\<in>set (evict_oldest (chats (current s))). id_conv x \<noteq> id_conv ?c"
  proof
    fix x
    assume "x \<in> set (evict_oldest (chats (current s)))"
    then have "x \<in> set (chats (current s))"
      using set_evict_oldest by blast
    then have "id_conv x \<in> id_conv ` set (chats (current s))"
      by (rule imageI)
    with assms(2) show "id_conv x \<noteq> id_conv ?c"
      by auto
  qed
  then have "find (\<lambda>c. id_conv c = id_conv ?c) (chats ?st) = Some ?c"
    by (simp add: find_append_fresh)
  then have get: "fetch ?s' (GET_chat (id_conv ?c)) e' = (Chat ?c, ?s')"
    by (simp add: fetch_get cur)
  have "messages ?c = [m]" by (simp add: new_chat_def)
  with post get show ?thesis by blast
qed

text \<open>A fourth conversation on the store that holds c1, c2 and c3, read back by its id.\<close>

theorem round_trip_witness:
  "put_ok (example_env ''c4'' 4 True) \<and>
   fst (fetch three_chats (POST_chats None (example_message ''d'' 4) ''gpt-4o'')
          (example_env ''c4'' 4 True)) =
     Chat (new_chat (example_env ''c4'' 4 True) (example_message ''d'' 4) ''gpt-4o'') \<and>
   fst (fetch (snd (fetch three_chats (POST_chats None (example_message ''d'' 4) ''gpt-4o'')
          (example_env ''c4'' 4 True))) (GET_chat ''c4'') (example_env ''unused'' 5 True)) =
     Chat (new_chat (example_env ''c4'' 4 True) (example_message ''d'' 4) ''gpt-4o'') \<and>
   messages (new_chat (example_env ''c4'' 4 True) (example_message ''d'' 4) ''gpt-4o'') =
     [example_message ''d'' 4]"
proof -
  have h1: "put_ok (example_env ''c4'' 4 True)"
    by (simp add: example_env_def)
  have h2: "randomUUID (example_env ''c4'' 4 True) \<notin> id_conv ` set (chats (current three_chats))"
    by (simp add: chats_three_chats example_env_def)
  from round_trip [OF h1 h2, of "example_message ''d'' 4" "''gpt-4o''" "example_env ''unused'' 5 True"]
  obtain c s' where r:
    "fetch three_chats (POST_chats None (example_message ''d'' 4) ''gpt-4o'')
       (example_env ''c4'' 4 True) = (Chat c, s')"
    "fetch s' (GET_chat (id_conv c)) (example_env ''unused'' 5 True) = (Chat c, s')"
    "messages c = [example_message ''d'' 4]"
    by blast
  have c: "c = new_chat (example_env ''c4'' 4 True) (example_message ''d'' 4) ''gpt-4o''"
    using r(1) h1 by (simp add: fetch_new save_and_respond_ok)
  have i: "id_conv c = ''c4''"
    by (simp add: c example_env_def)
  show ?thesis
    using h1 r c i by simp
qed

text \<open>
  Claim C9. Appending a message to an existing conversation changes only the message
  list and the \<open>updatedAt\<close> of that record: its id, title, model and \<open>createdAt\<close> are
  unchanged (the model argument is ignored: the call with another model has the
  same result), and every other record of the store, as well as the preferences, is
  unchanged. The conversation exists: the id of the call is non-empty and \<open>c\<close> is the
  first record of the array with that id.
\<close>

theorem append_existing_frame:
  assumes "cid \<noteq> []" and "find (\<lambda>c. id_conv c = cid) (chats (current s)) = Some c"
  shows "\<exists>pre post.
           chats (current s) = pre @ c # post \<and> (\<forall>x\<in>set pre. id_conv x \<noteq> cid) \<and>
           chats (current (snd (fetch s (POST_chats (Some cid) m mdl) e))) =
             pre @ push_message e m c # post \<and>
           id_conv (push_message e m c) = id_conv c \<and>
           title (push_message e m c) = title c \<and>
           model (push_message e m c) = model c \<and>
           createdAt (push_message e m c) = createdAt c \<and>
           messages (push_message e m c) = messages c @ [m] \<and>
           updatedAt (push_message e m c) = date_now1 e \<and>
           preferences (current (snd (fetch s (POST_chats (Some cid) m mdl) e))) =
             preferences (current s) \<and>
           fetch s (POST_chats (Some cid) m mdl') e = fetch s (POST_chats (Some cid) m mdl) e"
proof -
  from update_first_decomp [OF assms(2), of "push_message e m"]
  obtain pre post where d: "chats (current s) = pre @ c # post"
    "\<forall>x\<in>set pre. id_conv x \<noteq> cid"
    "update_first (\<lambda>c. id_conv c = cid) (push_message e m) (chats (current s)) =
       pre @ push_message e m c # post"
    by blast
  have "chats (current (snd (fetch s (POST_chats (Some cid) m mdl) e))) =
      pre @ push_message e m c # post"
    using assms d(3) by (simp add: fetch_existing)
  moreover have "preferences (current (snd (fetch s (POST_chats (Some cid) m mdl) e))) =
      preferences (current s)"
    using assms by (simp add: fetch_existing)
  moreover have "fetch s (POST_chats (Some cid) m mdl') e = fetch s (POST_chats (Some cid) m mdl) e"
    using assms(1) by (simp add: fetch_existing)
  ultimately show ?thesis
    using d(1,2) by (intro exI [of _ pre] exI [of _ post]) (simp add: push_message_def)
qed

text \<open>
  A message appended to c2 with another model, on the store that holds c1, c2 and c3:
  c2 has two messages, the others one, and every record keeps its model.
\<close>

theorem append_existing_frame_witness:
  "map id_conv (chats (current three_chats)) = [''c1'', ''c2'', ''c3''] \<and>
   map (\<lambda>c. length (messages c)) (chats (current (snd (fetch three_chats
     (POST_chats (Some ''c2'') (example_message ''again'' 4) ''other-model'')
     (example_env ''unused'' 4 True))))) = [1, 2, 1] \<and>
   map model (chats (current (snd (fetch three_chats
     (POST_chats (Some ''c2'') (example_message ''again'' 4) ''other-model'')
     (example_env ''unused'' 4 True))))) = [''gpt-4o'', ''gpt-4o'', ''gpt-4o'']"
proof -
  let ?c2 = "new_chat (example_env ''c2'' 2 True) (example_message ''b'' 2) ''gpt-4o''"
  have h1: "''c2'' \<noteq> []" by simp
  have h2: "find (\<lambda>c. id_conv c = ''c2'') (chats (current three_chats)) = Some ?c2"
    by (simp add: chats_three_chats example_env_def)
  have "map (\<lambda>c. length (messages c)) (chats (current (snd (fetch three_chats
     (POST_chats (Some ''c2'') (example_message ''again'' 4) ''other-model'')
     (example_env ''unused'' 4 True))))) = [1, 2, 1] \<and>
   map model (chats (current (snd (fetch three_chats
     (POST_chats (Some ''c2'') (example_message ''again'' 4) ''other-model'')
     (example_env ''unused'' 4 True))))) = [''gpt-4o'', ''gpt-4o'', ''gpt-4o'']"
    by (simp add: fetch_existing chats_three_chats example_env_def push_message_def new_chat_def)
  then show ?thesis
    using append_existing_frame [OF h1 h2, of "example_message ''again'' 4" "''other-model''"
        "example_env ''unused'' 4 True" "''other-model''"]
    by (simp add: chats_three_chats example_env_def)
qed

section \<open>Clearing\<close>

text \<open>
  Claim C10. \<^verbatim>\<open>clearAll\<close> does not leave the preferences unchanged: for every state of
  the store, after \<^verbatim>\<open>clearAll\<close> the preferences are the built-in defaults (default
  model \<^verbatim>\<open>gpt-4o\<close>, theme dark), so preferences set before by \<^verbatim>\<open>setPreferences\<close> are
  lost, and all conversation records are removed. The durable value is the default
  storage too when the put succeeds.
\<close>

theorem clear_resets_preferences:
  "chats (current (snd (fetch s DELETE_clear e))) = [] \<and>
   preferences (current (snd (fetch s DELETE_clear e))) = \<lparr>defaultModel = ''gpt-4o'', theme = Dark\<rparr> \<and>
   fst (fetch s DELETE_clear e) = (if put_ok e then Success else Internal_error) \<and>
   persisted (snd (fetch s DELETE_clear e)) = (if put_ok e then default_storage else persisted s)"
  by (simp add: fetch.simps save_and_respond_def saveStorage_def default_storage_def
      default_preferences_def)

text \<open>
  The preferences set to another model and the light theme, then \<^verbatim>\<open>clearAll\<close>: the
  defaults are back.
\<close>

theorem clear_resets_preferences_witness:
  "preferences (current (snd (fetch empty_do
      (PUT_preferences \<lparr>defaultModel_opt = Some ''claude-3'', theme_opt = Some Light\<rparr>)
      (example_env ''unused'' 1 True)))) = \<lparr>defaultModel = ''claude-3'', theme = Light\<rparr> \<and>
   preferences (current (snd (fetch (snd (fetch empty_do
      (PUT_preferences \<lparr>defaultModel_opt = Some ''claude-3'', theme_opt = Some Light\<rparr>)
      (example_env ''unused'' 1 True))) DELETE_clear (example_env ''unused'' 2 True)))) =
     \<lparr>defaultModel = ''gpt-4o'', theme = Dark\<rparr>"
  using clear_resets_preferences [of "snd (fetch empty_do
      (PUT_preferences \<lparr>defaultModel_opt = Some ''claude-3'', theme_opt = Some Light\<rparr>)
      (example_env ''unused'' 1 True))" "example_env ''unused'' 2 True"]
  by (simp add: fetch_put_preferences merge_preferences_def)

end
